theory Spec2Isabelle
  imports Main
begin

section \<open>Data model\<close>

text \<open>
  The webhook is written in Go. Two revisions of the admission logic are present in the
  sources: \<^verbatim>\<open>src/unnamed/part_000\<close> (one-argument
  \<^verbatim>\<open>processAdmissionRequest\<close>, with a separate \<^verbatim>\<open>Update\<close> branch and a
  search list derived from the namespace) and \<^verbatim>\<open>src/unnamed/part_001\<close> (the
  revision \<^verbatim>\<open>src/server.go\<close> calls, with \<^verbatim>\<open>parsePodFromRequest\<close> and
  \<^verbatim>\<open>createDNSConfig\<close>). Both are embedded; the functions they share
  (\<^verbatim>\<open>generateJSONPatch\<close>, \<^verbatim>\<open>createErrorResponse\<close>,
  \<^verbatim>\<open>injectDNSConfig\<close>) are textually identical in the two files and are embedded once.

  Go strings and byte slices are \<^typ>\<open>string\<close>; a pointer that may be nil is an
  \<^typ>\<open>'a option\<close>; a Go \<^verbatim>\<open>error\<close> is the text of its \<^verbatim>\<open>Error()\<close>.
  Logging and the clock do not influence any returned value and are left out.
\<close>

type_synonym bytes = string

subsection \<open>config.go\<close>

record DNSOption =
  Name :: string
  Value :: string

record DNSConfig =
  Nameservers :: "string list"
  Searches :: "string list"
  Options :: "DNSOption list"

text \<open>
  \<^verbatim>\<open>Config\<close> as declared in \<^verbatim>\<open>src/config.go\<close>, plus the field
  \<^verbatim>\<open>ClusterDomain\<close> that \<^verbatim>\<open>part_000\<close> reads
  (\<^verbatim>\<open>s.config.ClusterDomain\<close>) and whose declaration belongs to that revision's
  \<^verbatim>\<open>config.go\<close>.
\<close>

record Config =
  NodeLocalDNSAddress :: string
  SearchDomains :: "string list"
  DNSOptions :: "DNSOption list"
  ClusterDNSAddress :: string
  ClusterDomain :: string

text \<open>
  Of \<^verbatim>\<open>Server\<close> (\<^verbatim>\<open>src/server.go\<close>) the admission logic reads only
  \<^verbatim>\<open>config\<close>; the pointer is set once by \<^verbatim>\<open>NewServer\<close> and is not nil.
\<close>

record Server =
  config :: Config

subsection \<open>k8s.io/api/core/v1: the part of a Pod the code touches\<close>

record PodDNSConfigOption =
  Name :: string
  Value :: "string option"

record PodDNSConfig =
  Nameservers :: "string list"
  Searches :: "string list"
  Options :: "PodDNSConfigOption list"

text \<open>
  \<^verbatim>\<open>corev1.DNSPolicy\<close> is a Go string type, so a decoded pod can carry any string.
  The fields of \<^verbatim>\<open>PodSpec\<close> and \<^verbatim>\<open>ObjectMeta\<close> that the code never reads or
  writes are carried along as one opaque component each.
\<close>

record PodSpec =
  DNSPolicy :: string
  DNSConfig :: "PodDNSConfig option"
  HostNetwork :: bool
  OtherSpec :: string

record Pod =
  Name :: string
  Namespace :: string
  UID :: string
  OtherMeta :: string
  Spec :: PodSpec

definition DNSNone :: string where
  "DNSNone = ''None''"

definition DNSClusterFirstWithHostNet :: string where
  "DNSClusterFirstWithHostNet = ''ClusterFirstWithHostNet''"

subsection \<open>k8s.io/api/admission/v1\<close>

record GroupVersionKind =
  Group :: string
  Version :: string
  Kind :: string

record GroupVersionResource =
  Group :: string
  Version :: string
  Resource :: string

record RawExtension =
  Raw :: "bytes option"

record AdmissionRequest =
  UID :: string
  Kind :: GroupVersionKind
  Resource :: GroupVersionResource
  Name :: string
  Namespace :: string
  Operation :: string
  Object :: RawExtension
  OldObject :: RawExtension

record Status =
  Code :: int
  Message :: string

record AdmissionResponse =
  UID :: string
  Allowed :: bool
  Result :: "Status option"
  Patch :: "bytes option"
  PatchType :: "string option"

record AdmissionReview =
  APIVersion :: string
  Kind :: string
  Request :: "AdmissionRequest option"
  Response :: "AdmissionResponse option"

definition Create :: string where
  "Create = ''CREATE''"

definition Update :: string where
  "Update = ''UPDATE''"

definition PatchTypeJSONPatch :: string where
  "PatchTypeJSONPatch = ''JSONPatch''"

subsection \<open>JSON patch operations\<close>

text \<open>
  One element of \<^verbatim>\<open>[]map[string]interface{}\<close> in \<^verbatim>\<open>generateJSONPatch\<close>: the keys
  \<^verbatim>\<open>"op"\<close>, \<^verbatim>\<open>"path"\<close> and \<^verbatim>\<open>"value"\<close>; the value is a string or a
  \<^verbatim>\<open>*corev1.PodDNSConfig\<close>.
\<close>

datatype PatchValue = StringValue string | DNSConfigValue PodDNSConfig

record PatchOperation =
  op :: string
  path :: string
  val :: PatchValue

section \<open>The admission logic shared by both revisions\<close>

text \<open>
  \<^verbatim>\<open>encoding/json\<close> is a library, not code of this repository: decoding a pod
  (\<^verbatim>\<open>json.Unmarshal(raw, &pod)\<close>) and encoding the patch
  (\<^verbatim>\<open>json.Marshal(patches)\<close>) are parameters, each returning the error text on the
  left or the result on the right. A nil \<^verbatim>\<open>Raw\<close> is the empty input for
  \<^verbatim>\<open>json.Unmarshal\<close>.
\<close>

type_synonym unmarshalPod = "bytes \<Rightarrow> string + Pod"
type_synonym marshalPatch = "PatchOperation list \<Rightarrow> string + bytes"

definition rawBytes :: "RawExtension \<Rightarrow> bytes" where
  "rawBytes r = (case Raw r of None \<Rightarrow> [] | Some b \<Rightarrow> b)"

definition createErrorResponse :: "string \<Rightarrow> string \<Rightarrow> AdmissionResponse" where
  "createErrorResponse uid message =
     \<lparr>AdmissionResponse.UID = uid,
      Allowed = False,
      Result = Some \<lparr>Code = 400, Message = message\<rparr>,
      Patch = None,
      PatchType = None\<rparr>"

text \<open>
  \<^verbatim>\<open>injectDNSConfig(pod *corev1.Pod, dnsConfig *DNSConfig) error\<close> mutates
  \<^verbatim>\<open>*pod\<close> in place: the model returns the pod behind the pointer after the call
  together with the returned error (\<^term>\<open>None\<close> is nil). Both callers pass the address
  of a freshly built \<^verbatim>\<open>DNSConfig\<close>, so \<^verbatim>\<open>dnsConfig\<close> is a value here.
  \<^verbatim>\<open>make\<close> followed by \<^verbatim>\<open>copy\<close> of the same length yields the source list;
  the loop over the options is a \<^const>\<open>map\<close>.
\<close>

definition injectDNSConfig :: "Pod option \<Rightarrow> DNSConfig \<Rightarrow> Pod option \<times> string option" where
  "injectDNSConfig pod dnsConfig =
     (case pod of
        None \<Rightarrow> (None, None)
      | Some p \<Rightarrow>
          if DNSConfig (Spec p) \<noteq> None then (Some p, None)
          else if DNSPolicy (Spec p) = DNSNone then (Some p, None)
          else if HostNetwork (Spec p) \<and> DNSPolicy (Spec p) \<noteq> DNSClusterFirstWithHostNet
            then (Some p, None)
          else
            let podCopy = p;
                podCopy = podCopy\<lparr>Spec := (Spec podCopy)\<lparr>DNSPolicy := DNSNone\<rparr>\<rparr>;
                podDNSConfig =
                  \<lparr>PodDNSConfig.Nameservers = DNSConfig.Nameservers dnsConfig,
                   PodDNSConfig.Searches = DNSConfig.Searches dnsConfig,
                   PodDNSConfig.Options =
                     map (\<lambda>opt. \<lparr>PodDNSConfigOption.Name = DNSOption.Name opt,
                                 PodDNSConfigOption.Value = Some (DNSOption.Value opt)\<rparr>)
                         (DNSConfig.Options dnsConfig)\<rparr>;
                podCopy = podCopy\<lparr>Spec := (Spec podCopy)\<lparr>DNSConfig := Some podDNSConfig\<rparr>\<rparr>
            in (Some podCopy, None))"

text \<open>
  \<^verbatim>\<open>generateJSONPatch\<close>: \<open>patches\<close> is the local slice of that name at the point
  where it is handed to \<^verbatim>\<open>json.Marshal\<close>. The parameter \<open>original\<close> is not read
  by the source either.
\<close>

definition patches :: "Pod \<Rightarrow> Pod \<Rightarrow> PatchOperation list" where
  "patches original modified =
     (let ps = [];
          ps = ps @ [\<lparr>op = ''replace'', path = ''/spec/dnsPolicy'', val = StringValue DNSNone\<rparr>];
          ps = (case DNSConfig (Spec modified) of
                  None \<Rightarrow> ps
                | Some c \<Rightarrow> ps @ [\<lparr>op = ''add'', path = ''/spec/dnsConfig'', val = DNSConfigValue c\<rparr>])
      in ps)"

definition generateJSONPatch :: "marshalPatch \<Rightarrow> Pod \<Rightarrow> Pod \<Rightarrow> string + bytes" where
  "generateJSONPatch marshal original modified =
     (case marshal (patches original modified) of
        Inl err \<Rightarrow> Inl (''failed to marshal JSON patch: '' @ err)
      | Inr patchBytes \<Rightarrow> Inr patchBytes)"

text \<open>
  The tail both revisions of \<^verbatim>\<open>processAdmissionRequest\<close> end with: generate the
  patch, deny on failure, otherwise put the patch and its type into the base response.
\<close>

definition respondWithPatch ::
  "marshalPatch \<Rightarrow> AdmissionRequest \<Rightarrow> AdmissionResponse \<Rightarrow> Pod \<Rightarrow> Pod \<Rightarrow> AdmissionResponse" where
  "respondWithPatch marshal req response pod podCopy =
     (case generateJSONPatch marshal pod podCopy of
        Inl err \<Rightarrow>
          createErrorResponse (AdmissionRequest.UID req) (''Failed to generate patch: '' @ err)
      | Inr patch \<Rightarrow> response\<lparr>Patch := Some patch, PatchType := Some PatchTypeJSONPatch\<rparr>)"

section \<open>Revision part_000: processAdmissionRequest\<close>

text \<open>
  The object is decoded before the operation is looked at; the \<^verbatim>\<open>switch\<close> on the
  operation has the cases \<^verbatim>\<open>Create\<close>, \<^verbatim>\<open>Update\<close> and \<^verbatim>\<open>default\<close>.
  \<^verbatim>\<open>podCopy\<close> is never nil, so after \<^verbatim>\<open>injectDNSConfig\<close> the pod behind it
  is read with \<^const>\<open>the\<close>.
\<close>

definition processAdmissionRequest_000 ::
  "unmarshalPod \<Rightarrow> marshalPatch \<Rightarrow> Server \<Rightarrow> AdmissionRequest \<Rightarrow> AdmissionResponse" where
  "processAdmissionRequest_000 unmarshal marshal s req =
     (let response =
            \<lparr>AdmissionResponse.UID = AdmissionRequest.UID req,
             Allowed = True, Result = None, Patch = None, PatchType = None\<rparr>
      in
      if GroupVersionKind.Kind (AdmissionRequest.Kind req) \<noteq> ''Pod''
         \<or> GroupVersionResource.Resource (AdmissionRequest.Resource req) \<noteq> ''pods''
      then response
      else
        case unmarshal (rawBytes (Object req)) of
          Inl err \<Rightarrow>
            createErrorResponse (AdmissionRequest.UID req) (''Failed to parse pod: '' @ err)
        | Inr pod \<Rightarrow>
            let podCopy = pod in
            if Operation req = Create then
              (let domains =
                     [Pod.Namespace pod @ ''.svc.'' @ ClusterDomain (config s),
                      ''svc.'' @ ClusterDomain (config s),
                      ClusterDomain (config s)];
                   dnsConfig =
                     \<lparr>DNSConfig.Nameservers =
                        [NodeLocalDNSAddress (config s), ClusterDNSAddress (config s)],
                      DNSConfig.Searches = domains,
                      DNSConfig.Options = DNSOptions (config s)\<rparr>
               in case injectDNSConfig (Some podCopy) dnsConfig of
                    (podCopy, Some err) \<Rightarrow>
                      createErrorResponse (AdmissionRequest.UID req)
                        (''Failed to inject DNS configuration: '' @ err)
                  | (podCopy, None) \<Rightarrow>
                      respondWithPatch marshal req response pod (the podCopy))
            else if Operation req = Update then
              (case unmarshal (rawBytes (OldObject req)) of
                 Inl err \<Rightarrow>
                   createErrorResponse (AdmissionRequest.UID req)
                     (''Failed to parse pod: '' @ err)
               | Inr oldPod \<Rightarrow>
                   let podCopy = podCopy\<lparr>Spec := (Spec podCopy)\<lparr>DNSConfig := DNSConfig (Spec oldPod)\<rparr>\<rparr>;
                       podCopy = podCopy\<lparr>Spec := (Spec podCopy)\<lparr>DNSPolicy := DNSPolicy (Spec oldPod)\<rparr>\<rparr>
                   in respondWithPatch marshal req response pod podCopy)
            else response)"

section \<open>Revision part_001: processAdmissionRequest, parsePodFromRequest, createDNSConfig\<close>

definition parsePodFromRequest :: "unmarshalPod \<Rightarrow> AdmissionRequest \<Rightarrow> string + Pod" where
  "parsePodFromRequest unmarshal req =
     (case Raw (Object req) of
        None \<Rightarrow> Inl ''admission request object is nil''
      | Some raw \<Rightarrow>
          (case unmarshal raw of
             Inl err \<Rightarrow> Inl (''failed to unmarshal pod object: '' @ err)
           | Inr pod \<Rightarrow>
               Inr (if Pod.Namespace pod = '''' \<and> AdmissionRequest.Namespace req \<noteq> ''''
                    then pod\<lparr>Pod.Namespace := AdmissionRequest.Namespace req\<rparr>
                    else pod)))"

definition createDNSConfig :: "Config \<Rightarrow> DNSConfig" where
  "createDNSConfig webhookConfig =
     (let nameservers = [NodeLocalDNSAddress webhookConfig];
          nameservers = (if ClusterDNSAddress webhookConfig \<noteq> ''''
                         then nameservers @ [ClusterDNSAddress webhookConfig]
                         else nameservers)
      in \<lparr>DNSConfig.Nameservers = nameservers,
          DNSConfig.Searches = SearchDomains webhookConfig,
          DNSConfig.Options = DNSOptions webhookConfig\<rparr>)"

text \<open>
  The second argument \<^verbatim>\<open>startTime\<close> of this revision is not read by the body and is
  left out.
\<close>

definition processAdmissionRequest_001 ::
  "unmarshalPod \<Rightarrow> marshalPatch \<Rightarrow> Server \<Rightarrow> AdmissionRequest \<Rightarrow> AdmissionResponse" where
  "processAdmissionRequest_001 unmarshal marshal s req =
     (let response =
            \<lparr>AdmissionResponse.UID = AdmissionRequest.UID req,
             Allowed = True, Result = None, Patch = None, PatchType = None\<rparr>
      in
      if GroupVersionKind.Kind (AdmissionRequest.Kind req) \<noteq> ''Pod''
         \<or> GroupVersionResource.Resource (AdmissionRequest.Resource req) \<noteq> ''pods''
      then response
      else if Operation req \<noteq> Create \<and> Operation req \<noteq> Update then response
      else
        case parsePodFromRequest unmarshal req of
          Inl err \<Rightarrow>
            createErrorResponse (AdmissionRequest.UID req) (''Failed to parse pod: '' @ err)
        | Inr pod \<Rightarrow>
            (let config = config s;
                 dnsConfig = createDNSConfig config;
                 podCopy = pod
             in case injectDNSConfig (Some podCopy) dnsConfig of
                  (podCopy, Some err) \<Rightarrow>
                    createErrorResponse (AdmissionRequest.UID req)
                      (''Failed to inject DNS configuration: '' @ err)
                | (podCopy, None) \<Rightarrow>
                    respondWithPatch marshal req response pod (the podCopy)))"

section \<open>server.go: the /inject handler\<close>

text \<open>
  What the handler leaves in the \<^verbatim>\<open>http.ResponseWriter\<close>: the status, the
  \<^verbatim>\<open>Content-Type\<close> header and the body. An error body is the JSON value that
  \<^verbatim>\<open>writeErrorResponse\<close> builds as nested maps; a success body is the bytes of the
  marshalled review. The request carries the result of \<^verbatim>\<open>io.ReadAll(r.Body)\<close>.
\<close>

datatype JSONValue = JString string | JNumber int | JObject "(string \<times> JSONValue) list"

datatype ResponseBody = JSONBody JSONValue | RawBody bytes

record HTTPRequest =
  Method :: string
  URLPath :: string
  ContentType :: string
  Body :: "string + bytes"

record HTTPResponse =
  StatusCode :: int
  HeaderContentType :: string
  Body :: ResponseBody

definition ContentTypeJSON :: string where
  "ContentTypeJSON = ''application/json''"

definition MethodPost :: string where
  "MethodPost = ''POST''"

definition StatusOK :: int where
  "StatusOK = 200"

definition StatusBadRequest :: int where
  "StatusBadRequest = 400"

definition StatusMethodNotAllowed :: int where
  "StatusMethodNotAllowed = 405"

definition StatusInternalServerError :: int where
  "StatusInternalServerError = 500"

type_synonym unmarshalReview = "bytes \<Rightarrow> string + AdmissionReview"
type_synonym marshalReview = "AdmissionReview \<Rightarrow> string + bytes"

definition parseAdmissionReview :: "unmarshalReview \<Rightarrow> bytes \<Rightarrow> string + AdmissionReview" where
  "parseAdmissionReview unmarshal body =
     (case unmarshal body of
        Inl err \<Rightarrow> Inl (''failed to unmarshal admission review: '' @ err)
      | Inr admissionReview \<Rightarrow>
          (case Request admissionReview of
             None \<Rightarrow> Inl ''admission review request is nil''
           | Some request \<Rightarrow>
               if AdmissionRequest.UID request = ''''
               then Inl ''admission review request UID is empty''
               else Inr admissionReview))"

definition writeErrorResponse :: "int \<Rightarrow> string \<Rightarrow> HTTPResponse" where
  "writeErrorResponse statusCode message =
     \<lparr>StatusCode = statusCode,
      HeaderContentType = ContentTypeJSON,
      HTTPResponse.Body =
        JSONBody (JObject [(''error'',
          JObject [(''code'', JNumber statusCode), (''message'', JString message)])])\<rparr>"

text \<open>
  \<open>process\<close> stands for the call \<^verbatim>\<open>s.processAdmissionRequest(admissionReview.Request,
  startTime)\<close>; the handler of the repository is \<open>HandleInject\<close> applied to
  \<open>processAdmissionRequest_001\<close>. \<^verbatim>\<open>parseAdmissionReview\<close> only returns a review
  whose request is not nil.
\<close>

definition HandleInject ::
  "unmarshalReview \<Rightarrow> marshalReview \<Rightarrow> (AdmissionRequest \<Rightarrow> AdmissionResponse)
     \<Rightarrow> HTTPRequest \<Rightarrow> HTTPResponse" where
  "HandleInject unmarshal marshal process r =
     (if Method r \<noteq> MethodPost
      then writeErrorResponse StatusMethodNotAllowed ''Only POST method is allowed''
      else
        let contentType = ContentType r in
        if contentType \<noteq> ContentTypeJSON
        then writeErrorResponse StatusBadRequest ''Content-Type must be application/json''
        else
          case HTTPRequest.Body r of
            Inl err \<Rightarrow> writeErrorResponse StatusBadRequest ''Failed to read request body''
          | Inr body \<Rightarrow>
              (case parseAdmissionReview unmarshal body of
                 Inl err \<Rightarrow>
                   writeErrorResponse StatusBadRequest
                     (''Failed to parse admission review: '' @ err)
               | Inr admissionReview \<Rightarrow>
                   (let response = process (the (Request admissionReview));
                       admissionResponse =
                         \<lparr>APIVersion = ''admission.k8s.io/v1'',
                          AdmissionReview.Kind = ''AdmissionReview'',
                          Request = None,
                          Response = Some response\<rparr>
                    in case marshal admissionResponse of
                        Inl err \<Rightarrow>
                          writeErrorResponse StatusInternalServerError
                            ''Failed to marshal response''
                      | Inr responseBytes \<Rightarrow>
                          \<lparr>StatusCode = StatusOK,
                           HeaderContentType = ContentTypeJSON,
                           HTTPResponse.Body = RawBody responseBytes\<rparr>)))"

section \<open>Notation for the statements\<close>

text \<open>
  The base response built first by \<^verbatim>\<open>processAdmissionRequest\<close>, the condition under
  which it goes on to look at the pod, and the four forms a response of the engine can
  take.
\<close>

abbreviation (input) baseResponse :: "AdmissionRequest \<Rightarrow> AdmissionResponse" where
  "baseResponse req \<equiv>
     \<lparr>AdmissionResponse.UID = AdmissionRequest.UID req,
      Allowed = True, Result = None, Patch = None, PatchType = None\<rparr>"

abbreviation (input) isPodRequest :: "AdmissionRequest \<Rightarrow> bool" where
  "isPodRequest req \<equiv>
     GroupVersionKind.Kind (AdmissionRequest.Kind req) = ''Pod''
     \<and> GroupVersionResource.Resource (AdmissionRequest.Resource req) = ''pods''"

abbreviation (input) engineOutcome :: "AdmissionRequest \<Rightarrow> AdmissionResponse \<Rightarrow> bool" where
  "engineOutcome req r \<equiv>
     r = baseResponse req
     \<or> (\<exists>b. r = (baseResponse req)\<lparr>Patch := Some b, PatchType := Some PatchTypeJSONPatch\<rparr>)
     \<or> (\<exists>e. r = createErrorResponse (AdmissionRequest.UID req) (''Failed to parse pod: '' @ e))
     \<or> (\<exists>e. r = createErrorResponse (AdmissionRequest.UID req)
                  (''Failed to generate patch: '' @ e))"

text \<open>
  The \<^verbatim>\<open>DNSConfig\<close> that revision part_000 builds in its \<^verbatim>\<open>Create\<close> case, and
  the working copy it builds in its \<^verbatim>\<open>Update\<close> case.
\<close>

abbreviation (input) createDNSConfig_000 :: "Server \<Rightarrow> Pod \<Rightarrow> DNSConfig" where
  "createDNSConfig_000 s pod \<equiv>
     \<lparr>DNSConfig.Nameservers = [NodeLocalDNSAddress (config s), ClusterDNSAddress (config s)],
      DNSConfig.Searches =
        [Pod.Namespace pod @ ''.svc.'' @ ClusterDomain (config s),
         ''svc.'' @ ClusterDomain (config s),
         ClusterDomain (config s)],
      DNSConfig.Options = DNSOptions (config s)\<rparr>"

abbreviation (input) resetDNS :: "Pod \<Rightarrow> Pod \<Rightarrow> Pod" where
  "resetDNS pod oldPod \<equiv>
     pod\<lparr>Spec := (Spec pod)\<lparr>DNSConfig := DNSConfig (Spec oldPod),
                             DNSPolicy := DNSPolicy (Spec oldPod)\<rparr>\<rparr>"

section \<open>Example inputs\<close>

text \<open>
  Concrete values on which the theorems below are instantiated: a decoder that knows a
  finite table of inputs and fails on everything else (the message is the one
  \<^verbatim>\<open>encoding/json\<close> gives for an empty input), an encoder that lists the operation,
  path and value of each patch entry, the default configuration of \<^verbatim>\<open>config.go\<close>, and a
  Pod request.
\<close>

definition stubUnmarshal :: "(bytes \<times> Pod) list \<Rightarrow> unmarshalPod" where
  "stubUnmarshal table raw =
     (case map_of table raw of
        None \<Rightarrow> Inl ''unexpected end of JSON input''
      | Some pod \<Rightarrow> Inr pod)"

definition renderValue :: "PatchValue \<Rightarrow> string" where
  "renderValue v =
     (case v of
        StringValue str \<Rightarrow> str
      | DNSConfigValue c \<Rightarrow>
          concat (map (\<lambda>n. n @ '','') (PodDNSConfig.Nameservers c @ PodDNSConfig.Searches c)))"

definition stubMarshal :: marshalPatch where
  "stubMarshal ps =
     Inr (concat (map (\<lambda>p. op p @ '' '' @ path p @ '' '' @ renderValue (val p) @ '';'') ps))"

definition exampleConfig :: Config where
  "exampleConfig =
     \<lparr>NodeLocalDNSAddress = ''169.254.20.10'',
      SearchDomains = [''default.svc.cluster.local'', ''svc.cluster.local'', ''cluster.local''],
      DNSOptions = [\<lparr>DNSOption.Name = ''ndots'', DNSOption.Value = ''3''\<rparr>,
                    \<lparr>DNSOption.Name = ''attempts'', DNSOption.Value = ''2''\<rparr>,
                    \<lparr>DNSOption.Name = ''timeout'', DNSOption.Value = ''1''\<rparr>],
      ClusterDNSAddress = ''10.96.0.10'',
      ClusterDomain = ''cluster.local''\<rparr>"

definition exampleServer :: Server where
  "exampleServer = \<lparr>config = exampleConfig\<rparr>"

definition examplePod :: "string \<Rightarrow> bool \<Rightarrow> Pod" where
  "examplePod policy hostNet =
     \<lparr>Pod.Name = ''web'', Pod.Namespace = ''ns'', Pod.UID = ''pod-1'', OtherMeta = [],
      Spec = \<lparr>DNSPolicy = policy, DNSConfig = None, HostNetwork = hostNet, OtherSpec = []\<rparr>\<rparr>"

definition exampleRequest :: "string \<Rightarrow> bytes option \<Rightarrow> bytes option \<Rightarrow> AdmissionRequest" where
  "exampleRequest operation raw oldRaw =
     \<lparr>AdmissionRequest.UID = ''uid-1'',
      AdmissionRequest.Kind = \<lparr>GroupVersionKind.Group = [], GroupVersionKind.Version = ''v1'',
                                GroupVersionKind.Kind = ''Pod''\<rparr>,
      AdmissionRequest.Resource = \<lparr>GroupVersionResource.Group = [], GroupVersionResource.Version = ''v1'',
                                    GroupVersionResource.Resource = ''pods''\<rparr>,
      AdmissionRequest.Name = ''web'',
      AdmissionRequest.Namespace = ''ns'',
      Operation = operation,
      Object = \<lparr>Raw = raw\<rparr>,
      OldObject = \<lparr>Raw = oldRaw\<rparr>\<rparr>"

text \<open>
  The raw objects of two Create requests in namespace \<^verbatim>\<open>ns\<close>: a pod that sets
  nothing about DNS, and the same pod on the host network.
\<close>

definition exampleRaw :: bytes where
  \<open>exampleRaw = ''{"metadata":{"name":"web","namespace":"ns"},"spec":{}}''\<close>


section \<open>Basic facts\<close>

lemmas go_consts = DNSNone_def DNSClusterFirstWithHostNet_def Create_def Update_def
  PatchTypeJSONPatch_def

lemmas example_defs = stubUnmarshal_def stubMarshal_def renderValue_def exampleConfig_def exampleServer_def
  examplePod_def exampleRequest_def rawBytes_def

lemma injectDNSConfig_error_nil: "snd (injectDNSConfig pod dnsConfig) = None"
  by (simp add: injectDNSConfig_def Let_def split: option.splits)

lemma patches_eq:
  "patches original modified =
     \<lparr>op = ''replace'', path = ''/spec/dnsPolicy'', val = StringValue ''None''\<rparr> #
     (case DNSConfig (Spec modified) of None \<Rightarrow> []
      | Some c \<Rightarrow> [\<lparr>op = ''add'', path = ''/spec/dnsConfig'', val = DNSConfigValue c\<rparr>])"
  by (simp add: patches_def DNSNone_def split: option.splits)

lemma respondWithPatch_cases:
  "respondWithPatch marshal req response pod podCopy =
     (case marshal (patches pod podCopy) of
        Inl err \<Rightarrow> createErrorResponse (AdmissionRequest.UID req)
                    (''Failed to generate patch: failed to marshal JSON patch: '' @ err)
      | Inr b \<Rightarrow> response\<lparr>Patch := Some b, PatchType := Some PatchTypeJSONPatch\<rparr>)"
  by (simp add: respondWithPatch_def generateJSONPatch_def split: sum.splits)

lemma injectDNSConfig_the:
  "injectDNSConfig (Some p) c = (Some (the (fst (injectDNSConfig (Some p) c))), None)"
  by (simp add: injectDNSConfig_def Let_def)

lemma process_000_not_pod:
  assumes "\<not> isPodRequest req"
  shows "processAdmissionRequest_000 um m s req = baseResponse req"
  using assms by (auto simp: processAdmissionRequest_000_def Let_def)

lemma process_000_parse_error:
  assumes "isPodRequest req" and "um (rawBytes (Object req)) = Inl e"
  shows "processAdmissionRequest_000 um m s req =
           createErrorResponse (AdmissionRequest.UID req) (''Failed to parse pod: '' @ e)"
  using assms by (simp add: processAdmissionRequest_000_def)

lemma process_000_create:
  assumes "isPodRequest req" and "um (rawBytes (Object req)) = Inr pod"
    and "Operation req = Create"
  shows "processAdmissionRequest_000 um m s req =
           respondWithPatch m req (baseResponse req) pod
             (the (fst (injectDNSConfig (Some pod)
                \<lparr>DNSConfig.Nameservers =
                   [NodeLocalDNSAddress (config s), ClusterDNSAddress (config s)],
                 DNSConfig.Searches =
                   [Pod.Namespace pod @ ''.svc.'' @ ClusterDomain (config s),
                    ''svc.'' @ ClusterDomain (config s),
                    ClusterDomain (config s)],
                 DNSConfig.Options = DNSOptions (config s)\<rparr>)))"
  using assms
  by (simp add: processAdmissionRequest_000_def Let_def split: prod.splits option.splits)
     (metis injectDNSConfig_the snd_conv option.distinct(1))

lemma process_000_update_old_error:
  assumes "isPodRequest req" and "um (rawBytes (Object req)) = Inr pod"
    and "Operation req = Update" and "um (rawBytes (OldObject req)) = Inl e"
  shows "processAdmissionRequest_000 um m s req =
           createErrorResponse (AdmissionRequest.UID req) (''Failed to parse pod: '' @ e)"
  using assms by (simp add: processAdmissionRequest_000_def Create_def Update_def)

lemma process_000_update:
  assumes "isPodRequest req" and "um (rawBytes (Object req)) = Inr pod"
    and "Operation req = Update" and "um (rawBytes (OldObject req)) = Inr oldPod"
  shows "processAdmissionRequest_000 um m s req =
           respondWithPatch m req (baseResponse req) pod
             (pod\<lparr>Spec := (Spec pod)\<lparr>DNSConfig := DNSConfig (Spec oldPod),
                                     DNSPolicy := DNSPolicy (Spec oldPod)\<rparr>\<rparr>)"
  using assms by (simp add: processAdmissionRequest_000_def Create_def Update_def Let_def)

lemma process_000_other_operation:
  assumes "isPodRequest req" and "um (rawBytes (Object req)) = Inr pod"
    and "Operation req \<noteq> Create" and "Operation req \<noteq> Update"
  shows "processAdmissionRequest_000 um m s req = baseResponse req"
  using assms by (simp add: processAdmissionRequest_000_def)

lemma process_001_skip:
  assumes "\<not> isPodRequest req \<or> (Operation req \<noteq> Create \<and> Operation req \<noteq> Update)"
  shows "processAdmissionRequest_001 um m s req = baseResponse req"
  using assms by (auto simp: processAdmissionRequest_001_def Let_def)

lemma process_001_parse_error:
  assumes "isPodRequest req" and "Operation req = Create \<or> Operation req = Update"
    and "parsePodFromRequest um req = Inl e"
  shows "processAdmissionRequest_001 um m s req =
           createErrorResponse (AdmissionRequest.UID req) (''Failed to parse pod: '' @ e)"
  using assms by (auto simp: processAdmissionRequest_001_def Let_def)

lemma process_001_inject:
  assumes "isPodRequest req" and "Operation req = Create \<or> Operation req = Update"
    and "parsePodFromRequest um req = Inr pod"
  shows "processAdmissionRequest_001 um m s req =
           respondWithPatch m req (baseResponse req) pod
             (the (fst (injectDNSConfig (Some pod) (createDNSConfig (config s)))))"
proof -
  have "processAdmissionRequest_001 um m s req =
          (case injectDNSConfig (Some pod) (createDNSConfig (config s)) of
             (podCopy, Some err) \<Rightarrow>
                createErrorResponse (AdmissionRequest.UID req)
                  (''Failed to inject DNS configuration: '' @ err)
           | (podCopy, None) \<Rightarrow> respondWithPatch m req (baseResponse req) pod (the podCopy))"
    using assms by (auto simp: processAdmissionRequest_001_def Let_def)
  also have "\<dots> = respondWithPatch m req (baseResponse req) pod
             (the (fst (injectDNSConfig (Some pod) (createDNSConfig (config s)))))"
    by (subst injectDNSConfig_the) simp
  finally show ?thesis .
qed

lemma respondWithPatch_shape:
  "(\<exists>b. respondWithPatch m req (baseResponse req) pod pc =
          (baseResponse req)\<lparr>Patch := Some b, PatchType := Some PatchTypeJSONPatch\<rparr>)
   \<or> (\<exists>e. respondWithPatch m req (baseResponse req) pod pc =
          createErrorResponse (AdmissionRequest.UID req) (''Failed to generate patch: '' @ e))"
proof (cases "generateJSONPatch m pod pc")
  case (Inl e)
  then have "respondWithPatch m req (baseResponse req) pod pc =
               createErrorResponse (AdmissionRequest.UID req) (''Failed to generate patch: '' @ e)"
    by (simp add: respondWithPatch_def)
  then show ?thesis by blast
next
  case (Inr b)
  then have "respondWithPatch m req (baseResponse req) pod pc =
               (baseResponse req)\<lparr>Patch := Some b, PatchType := Some PatchTypeJSONPatch\<rparr>"
    by (simp add: respondWithPatch_def)
  then show ?thesis by blast
qed

lemma process_000_outcome: "engineOutcome req (processAdmissionRequest_000 um m s req)"
proof (cases "isPodRequest req")
  case False
  then show ?thesis using process_000_not_pod[of req um m s] by simp
next
  case pod_req: True
  show ?thesis
  proof (cases "um (rawBytes (Object req))")
    case (Inl e)
    then show ?thesis using process_000_parse_error[where um=um, OF pod_req Inl, of m s] by blast
  next
    case (Inr pod)
    consider (create) "Operation req = Create" | (update) "Operation req = Update"
      | (other) "Operation req \<noteq> Create" "Operation req \<noteq> Update" by blast
    then show ?thesis
    proof cases
      case create
      show ?thesis
        using process_000_create[where um=um, OF pod_req Inr create, of m s] respondWithPatch_shape
        by metis
    next
      case update
      show ?thesis
      proof (cases "um (rawBytes (OldObject req))")
        case (Inl e)
        then show ?thesis
          using process_000_update_old_error[where um=um, OF pod_req Inr update Inl, of m s] by blast
      next
        case old: (Inr oldPod)
        show ?thesis
          using process_000_update[where um=um, OF pod_req Inr update old, of m s] respondWithPatch_shape
          by metis
      qed
    next
      case other
      show ?thesis using process_000_other_operation[where um=um, OF pod_req Inr other, of m s] by simp
    qed
  qed
qed

lemma process_001_outcome: "engineOutcome req (processAdmissionRequest_001 um m s req)"
proof (cases "isPodRequest req \<and> (Operation req = Create \<or> Operation req = Update)")
  case False
  then show ?thesis using process_001_skip[of req um m s] by auto
next
  case True
  then have pod_req: "isPodRequest req" and opn: "Operation req = Create \<or> Operation req = Update"
    by simp_all
  show ?thesis
  proof (cases "parsePodFromRequest um req")
    case (Inl e)
    then show ?thesis using process_001_parse_error[where um=um, OF pod_req opn Inl, of m s] by blast
  next
    case (Inr pod)
    show ?thesis
      using process_001_inject[where um=um, OF pod_req opn Inr, of m s] respondWithPatch_shape
      by metis
  qed
qed

lemma outcome_invariant:
  assumes "engineOutcome req r"
  shows "AdmissionResponse.UID r = AdmissionRequest.UID req
         \<and> (\<not> Allowed r \<longrightarrow> Patch r = None \<and> PatchType r = None)
         \<and> (Patch r \<noteq> None \<longrightarrow> Allowed r)"
  using assms by (auto simp: createErrorResponse_def)

lemma outcome_not_inject_failure:
  assumes "engineOutcome req r"
  shows "r \<noteq> createErrorResponse (AdmissionRequest.UID req)
               (''Failed to inject DNS configuration: '' @ err)"
  using assms by (auto simp: createErrorResponse_def)

lemma respondWithPatch_denied:
  assumes "\<not> Allowed (respondWithPatch m req (baseResponse req) pod pc)"
  shows "\<exists>e. m (patches pod pc) = Inl e \<and>
             respondWithPatch m req (baseResponse req) pod pc =
               createErrorResponse (AdmissionRequest.UID req)
                 (''Failed to generate patch: failed to marshal JSON patch: '' @ e)"
proof (cases "m (patches pod pc)")
  case (Inl e)
  then have "respondWithPatch m req (baseResponse req) pod pc =
               createErrorResponse (AdmissionRequest.UID req)
                 (''Failed to generate patch: failed to marshal JSON patch: '' @ e)"
    unfolding respondWithPatch_cases by simp
  with Inl show ?thesis by blast
next
  case (Inr b)
  then have "Allowed (respondWithPatch m req (baseResponse req) pod pc)"
    unfolding respondWithPatch_cases by simp
  with assms show ?thesis by simp
qed

lemma process_000_denial_cause:
  assumes denied: "\<not> Allowed (processAdmissionRequest_000 um m s req)"
  shows "isPodRequest req \<and>
     ((\<exists>e. um (rawBytes (Object req)) = Inl e \<and>
           processAdmissionRequest_000 um m s req =
             createErrorResponse (AdmissionRequest.UID req) (''Failed to parse pod: '' @ e))
      \<or> (\<exists>pod e. um (rawBytes (Object req)) = Inr pod \<and> Operation req = Update \<and>
           um (rawBytes (OldObject req)) = Inl e \<and>
           processAdmissionRequest_000 um m s req =
             createErrorResponse (AdmissionRequest.UID req) (''Failed to parse pod: '' @ e))
      \<or> (\<exists>pod e. um (rawBytes (Object req)) = Inr pod \<and> Operation req = Create \<and>
           m (patches pod (the (fst (injectDNSConfig (Some pod) (createDNSConfig_000 s pod)))))
             = Inl e \<and>
           processAdmissionRequest_000 um m s req =
             createErrorResponse (AdmissionRequest.UID req)
               (''Failed to generate patch: failed to marshal JSON patch: '' @ e))
      \<or> (\<exists>pod oldPod e. um (rawBytes (Object req)) = Inr pod \<and> Operation req = Update \<and>
           um (rawBytes (OldObject req)) = Inr oldPod \<and>
           m (patches pod (resetDNS pod oldPod)) = Inl e \<and>
           processAdmissionRequest_000 um m s req =
             createErrorResponse (AdmissionRequest.UID req)
               (''Failed to generate patch: failed to marshal JSON patch: '' @ e)))"
proof (cases "isPodRequest req")
  case False
  then have "processAdmissionRequest_000 um m s req = baseResponse req"
    by (rule process_000_not_pod)
  with denied show ?thesis by simp
next
  case pod_req: True
  show ?thesis
  proof (cases "um (rawBytes (Object req))")
    case (Inl e)
    from process_000_parse_error[where um=um, OF pod_req Inl, of m s] Inl pod_req
    show ?thesis by blast
  next
    case (Inr pod)
    consider (create) "Operation req = Create" | (update) "Operation req = Update"
      | (other) "Operation req \<noteq> Create" "Operation req \<noteq> Update" by blast
    then show ?thesis
    proof cases
      case create
      note eq = process_000_create[where um=um, OF pod_req Inr create, of m s]
      from denied have "\<not> Allowed (respondWithPatch m req (baseResponse req) pod
          (the (fst (injectDNSConfig (Some pod) (createDNSConfig_000 s pod)))))"
        unfolding eq .
      from respondWithPatch_denied[OF this] obtain e where
        "m (patches pod (the (fst (injectDNSConfig (Some pod) (createDNSConfig_000 s pod)))))
           = Inl e"
        "processAdmissionRequest_000 um m s req =
             createErrorResponse (AdmissionRequest.UID req)
               (''Failed to generate patch: failed to marshal JSON patch: '' @ e)"
        unfolding eq by blast
      with pod_req Inr create show ?thesis by blast
    next
      case update
      show ?thesis
      proof (cases "um (rawBytes (OldObject req))")
        case (Inl e)
        from process_000_update_old_error[where um=um, OF pod_req Inr update Inl, of m s]
          pod_req Inr update Inl
        show ?thesis by blast
      next
        case old: (Inr oldPod)
        note eq = process_000_update[where um=um, OF pod_req Inr update old, of m s]
        from denied have "\<not> Allowed (respondWithPatch m req (baseResponse req) pod
            (resetDNS pod oldPod))"
          unfolding eq .
        from respondWithPatch_denied[OF this] obtain e where
          "m (patches pod (resetDNS pod oldPod)) = Inl e"
          "processAdmissionRequest_000 um m s req =
             createErrorResponse (AdmissionRequest.UID req)
               (''Failed to generate patch: failed to marshal JSON patch: '' @ e)"
          unfolding eq by blast
        with pod_req Inr update old show ?thesis by blast
      qed
    next
      case other
      from process_000_other_operation[where um=um, OF pod_req Inr other, of m s] denied
      show ?thesis by simp
    qed
  qed
qed

lemma process_001_denial_cause:
  assumes denied: "\<not> Allowed (processAdmissionRequest_001 um m s req)"
  shows "isPodRequest req \<and> (Operation req = Create \<or> Operation req = Update) \<and>
     ((Raw (Object req) = None \<and>
           processAdmissionRequest_001 um m s req =
             createErrorResponse (AdmissionRequest.UID req)
               (''Failed to parse pod: '' @ ''admission request object is nil''))
      \<or> (\<exists>raw e. Raw (Object req) = Some raw \<and> um raw = Inl e \<and>
           processAdmissionRequest_001 um m s req =
             createErrorResponse (AdmissionRequest.UID req)
               (''Failed to parse pod: '' @ ''failed to unmarshal pod object: '' @ e))
      \<or> (\<exists>pod e. parsePodFromRequest um req = Inr pod \<and>
           m (patches pod (the (fst (injectDNSConfig (Some pod) (createDNSConfig (config s))))))
             = Inl e \<and>
           processAdmissionRequest_001 um m s req =
             createErrorResponse (AdmissionRequest.UID req)
               (''Failed to generate patch: failed to marshal JSON patch: '' @ e)))"
proof (cases "isPodRequest req \<and> (Operation req = Create \<or> Operation req = Update)")
  case False
  then have "processAdmissionRequest_001 um m s req = baseResponse req"
    using process_001_skip[of req um m s] by blast
  with denied show ?thesis by simp
next
  case True
  then have pod_req: "isPodRequest req" and opn: "Operation req = Create \<or> Operation req = Update"
    by simp_all
  show ?thesis
  proof (cases "parsePodFromRequest um req")
    case (Inl err)
    note eq = process_001_parse_error[where um=um, OF pod_req opn Inl, of m s]
    show ?thesis
    proof (cases "Raw (Object req)")
      case None
      then have "err = ''admission request object is nil''"
        using Inl by (simp add: parsePodFromRequest_def)
      with eq None pod_req opn show ?thesis by blast
    next
      case (Some raw)
      then obtain e where "um raw = Inl e" "err = ''failed to unmarshal pod object: '' @ e"
        using Inl by (auto simp: parsePodFromRequest_def split: sum.splits)
      with eq Some pod_req opn show ?thesis by blast
    qed
  next
    case (Inr pod)
    note eq = process_001_inject[where um=um, OF pod_req opn Inr, of m s]
    from denied have "\<not> Allowed (respondWithPatch m req (baseResponse req) pod
        (the (fst (injectDNSConfig (Some pod) (createDNSConfig (config s))))))"
      unfolding eq .
    from respondWithPatch_denied[OF this] obtain e where
      "m (patches pod (the (fst (injectDNSConfig (Some pod) (createDNSConfig (config s))))))
         = Inl e"
      "processAdmissionRequest_001 um m s req =
             createErrorResponse (AdmissionRequest.UID req)
               (''Failed to generate patch: failed to marshal JSON patch: '' @ e)"
      unfolding eq by blast
    with pod_req opn Inr show ?thesis by blast
  qed
qed


lemma outcome_total:
  assumes "engineOutcome req r"
  shows "(Allowed r \<and> Result r = None)
         \<or> (\<exists>message. r = createErrorResponse (AdmissionRequest.UID req) message)"
proof -
  consider "r = baseResponse req"
    | b where "r = (baseResponse req)\<lparr>Patch := Some b, PatchType := Some PatchTypeJSONPatch\<rparr>"
    | e where "r = createErrorResponse (AdmissionRequest.UID req) (''Failed to parse pod: '' @ e)"
    | e where "r = createErrorResponse (AdmissionRequest.UID req)
                     (''Failed to generate patch: '' @ e)"
    using assms by blast
  then show ?thesis
  proof cases
    case 1 then show ?thesis by simp
  next
    case 2 then show ?thesis by simp
  next
    case 3 then show ?thesis by blast
  next
    case 4 then show ?thesis by blast
  qed
qed

lemmas conj6 = conjunct2[THEN conjunct2, THEN conjunct2, THEN conjunct2, THEN conjunct2,
  THEN conjunct1]
lemmas conj7 = conjunct2[THEN conjunct2, THEN conjunct2, THEN conjunct2, THEN conjunct2,
  THEN conjunct2, THEN conjunct1]

lemma example_denied_001:
  "processAdmissionRequest_001 (stubUnmarshal []) stubMarshal exampleServer
      (exampleRequest Create (Some ''{'') None)
   = createErrorResponse ''uid-1''
       ''Failed to parse pod: failed to unmarshal pod object: unexpected end of JSON input''"
  by (simp add: processAdmissionRequest_001_def parsePodFromRequest_def example_defs go_consts
        Let_def)

section \<open>The injection policy\<close>

text \<open>
  Claim C6. Whenever a skip condition holds for a pod (it already carries a DNS config,
  or its DNS policy is \<^verbatim>\<open>None\<close>, or it is on the host network with a policy other
  than \<^verbatim>\<open>ClusterFirstWithHostNet\<close>), \<^verbatim>\<open>injectDNSConfig\<close> returns nil and the
  pod behind the pointer is the pod it was given, in every field.
\<close>

theorem injectDNSConfig_skip_unchanged:
  assumes "DNSConfig (Spec p) \<noteq> None \<or> DNSPolicy (Spec p) = DNSNone
           \<or> (HostNetwork (Spec p) \<and> DNSPolicy (Spec p) \<noteq> DNSClusterFirstWithHostNet)"
  shows "injectDNSConfig (Some p) dnsConfig = (Some p, None)"
  using assms by (auto simp: injectDNSConfig_def)

theorem injectDNSConfig_skip_unchanged_witness:
  "injectDNSConfig (Some (examplePod ''ClusterFirst'' True)) (createDNSConfig exampleConfig)
     = (Some (examplePod ''ClusterFirst'' True), None)"
  using injectDNSConfig_skip_unchanged
          [of "examplePod ''ClusterFirst'' True" "createDNSConfig exampleConfig"]
  by (simp add: examplePod_def go_consts)

text \<open>
  Claim C7. For every pod pointer and every injection spec, a second run of
  \<^verbatim>\<open>injectDNSConfig\<close> on the result of the first is a no-op: it returns nil and
  leaves the pod as the first run left it, so two runs give the same pod as one.
\<close>

theorem injectDNSConfig_idempotent:
  "injectDNSConfig (fst (injectDNSConfig pod dnsConfig)) dnsConfig
     = (fst (injectDNSConfig pod dnsConfig), None)
   \<and> fst (injectDNSConfig (fst (injectDNSConfig pod dnsConfig)) dnsConfig)
     = fst (injectDNSConfig pod dnsConfig)"
  by (cases pod) (auto simp: injectDNSConfig_def Let_def)

theorem injectDNSConfig_idempotent_witness:
  "fst (injectDNSConfig (fst (injectDNSConfig (Some (examplePod [] False))
          (createDNSConfig exampleConfig))) (createDNSConfig exampleConfig))
     = Some ((examplePod [] False)
         \<lparr>Spec := \<lparr>DNSPolicy = ''None'',
                    DNSConfig = Some
                      \<lparr>PodDNSConfig.Nameservers = [''169.254.20.10'', ''10.96.0.10''],
                       PodDNSConfig.Searches =
                         [''default.svc.cluster.local'', ''svc.cluster.local'', ''cluster.local''],
                       PodDNSConfig.Options =
                         [\<lparr>PodDNSConfigOption.Name = ''ndots'',
                           PodDNSConfigOption.Value = Some ''3''\<rparr>,
                          \<lparr>PodDNSConfigOption.Name = ''attempts'',
                           PodDNSConfigOption.Value = Some ''2''\<rparr>,
                          \<lparr>PodDNSConfigOption.Name = ''timeout'',
                           PodDNSConfigOption.Value = Some ''1''\<rparr>]\<rparr>,
                    HostNetwork = False, OtherSpec = []\<rparr>\<rparr>)"
  using injectDNSConfig_idempotent
          [of "Some (examplePod [] False)" "createDNSConfig exampleConfig"]
  by (simp add: injectDNSConfig_def createDNSConfig_def Let_def example_defs go_consts)

text \<open>
  Claim C10. \<^verbatim>\<open>injectDNSConfig\<close> returns nil for every pod pointer and every DNS
  config: each of its return statements is \<^verbatim>\<open>return nil\<close>. Hence no response of
  \<^verbatim>\<open>processAdmissionRequest\<close>, in either revision, is the denial
  \<^verbatim>\<open>"Failed to inject DNS configuration: ..."\<close>: that branch is never taken.
\<close>

theorem injectDNSConfig_never_fails:
  "snd (injectDNSConfig pod dnsConfig) = None
   \<and> processAdmissionRequest_000 um m s req \<noteq>
       createErrorResponse (AdmissionRequest.UID req)
         (''Failed to inject DNS configuration: '' @ err)
   \<and> processAdmissionRequest_001 um m s req \<noteq>
       createErrorResponse (AdmissionRequest.UID req)
         (''Failed to inject DNS configuration: '' @ err)"
  using injectDNSConfig_error_nil[of pod dnsConfig]
        outcome_not_inject_failure[OF process_000_outcome[where req=req and um=um and m=m and s=s], of err]
        outcome_not_inject_failure[OF process_001_outcome[where req=req and um=um and m=m and s=s], of err]
  by blast

theorem injectDNSConfig_never_fails_witness:
  "snd (injectDNSConfig (Some (examplePod [] False)) (createDNSConfig exampleConfig)) = None
   \<and> processAdmissionRequest_000 (stubUnmarshal [(''{}'', examplePod [] False)]) stubMarshal
        exampleServer (exampleRequest Create (Some ''{}'') None) \<noteq>
       createErrorResponse (AdmissionRequest.UID (exampleRequest Create (Some ''{}'') None))
         (''Failed to inject DNS configuration: '' @ ''nil'')
   \<and> processAdmissionRequest_001 (stubUnmarshal [(''{}'', examplePod [] False)]) stubMarshal
        exampleServer (exampleRequest Create (Some ''{}'') None) \<noteq>
       createErrorResponse (AdmissionRequest.UID (exampleRequest Create (Some ''{}'') None))
         (''Failed to inject DNS configuration: '' @ ''nil'')"
  by (rule injectDNSConfig_never_fails)

section \<open>The patch codec\<close>

text \<open>
  Claim C2 says that the leading \<^verbatim>\<open>replace\<close> operation carries the modified pod's
  DNS policy, and that for a pod meeting an opt-out condition it is the only operation and
  carries the original policy. The source writes the constant
  \<^verbatim>\<open>string(corev1.DNSNone)\<close> instead and reads neither pod's policy: for every
  pair of pods the patch handed to \<^verbatim>\<open>json.Marshal\<close> is the \<^verbatim>\<open>replace\<close>
  operation with value \<^verbatim>\<open>"None"\<close>, followed by an \<^verbatim>\<open>add\<close> of the modified
  pod's DNS config whenever that is not nil (also when the original pod already had it).
\<close>

theorem generateJSONPatch_policy_value_fixed:
  "generateJSONPatch marshal original modified =
     (case marshal
        (\<lparr>op = ''replace'', path = ''/spec/dnsPolicy'', val = StringValue ''None''\<rparr> #
         (case DNSConfig (Spec modified) of
            None \<Rightarrow> []
          | Some c \<Rightarrow> [\<lparr>op = ''add'', path = ''/spec/dnsConfig'', val = DNSConfigValue c\<rparr>]))
      of Inl err \<Rightarrow> Inl (''failed to marshal JSON patch: '' @ err)
       | Inr patchBytes \<Rightarrow> Inr patchBytes)"
  by (simp add: generateJSONPatch_def patches_eq)

text \<open>
  A host-network pod with policy \<^verbatim>\<open>ClusterFirst\<close> meets an opt-out condition and is
  left unchanged by \<^verbatim>\<open>injectDNSConfig\<close>, yet the patch sets its policy to
  \<^verbatim>\<open>None\<close>.
\<close>

theorem generateJSONPatch_policy_value_fixed_witness:
  "DNSPolicy (Spec (examplePod ''ClusterFirst'' True)) = ''ClusterFirst''
   \<and> injectDNSConfig (Some (examplePod ''ClusterFirst'' True)) (createDNSConfig exampleConfig)
       = (Some (examplePod ''ClusterFirst'' True), None)
   \<and> generateJSONPatch stubMarshal (examplePod ''ClusterFirst'' True)
        (examplePod ''ClusterFirst'' True)
       = Inr ''replace /spec/dnsPolicy None;''"
  using generateJSONPatch_policy_value_fixed[of stubMarshal "examplePod ''ClusterFirst'' True"
          "examplePod ''ClusterFirst'' True"]
  by (simp add: example_defs go_consts injectDNSConfig_def)

section \<open>The decision engine\<close>

text \<open>
  Claim C8. Every response of \<^verbatim>\<open>processAdmissionRequest\<close>, in both revisions,
  carries the UID of the request; a denied response has neither patch nor patch type; a
  response with a patch is allowed.
\<close>

theorem response_invariant:
  "AdmissionResponse.UID (processAdmissionRequest_000 um m s req) = AdmissionRequest.UID req
   \<and> (\<not> Allowed (processAdmissionRequest_000 um m s req) \<longrightarrow>
          Patch (processAdmissionRequest_000 um m s req) = None
          \<and> PatchType (processAdmissionRequest_000 um m s req) = None)
   \<and> (Patch (processAdmissionRequest_000 um m s req) \<noteq> None \<longrightarrow>
          Allowed (processAdmissionRequest_000 um m s req))
   \<and> AdmissionResponse.UID (processAdmissionRequest_001 um m s req) = AdmissionRequest.UID req
   \<and> (\<not> Allowed (processAdmissionRequest_001 um m s req) \<longrightarrow>
          Patch (processAdmissionRequest_001 um m s req) = None
          \<and> PatchType (processAdmissionRequest_001 um m s req) = None)
   \<and> (Patch (processAdmissionRequest_001 um m s req) \<noteq> None \<longrightarrow>
          Allowed (processAdmissionRequest_001 um m s req))"
  using outcome_invariant[OF process_000_outcome[where req=req and um=um and m=m and s=s]]
        outcome_invariant[OF process_001_outcome[where req=req and um=um and m=m and s=s]]
  by blast

theorem response_invariant_witness:
  "AdmissionResponse.UID (processAdmissionRequest_001 (stubUnmarshal []) stubMarshal exampleServer
      (exampleRequest Create (Some ''{'') None)) = ''uid-1''
   \<and> \<not> Allowed (processAdmissionRequest_001 (stubUnmarshal []) stubMarshal exampleServer
      (exampleRequest Create (Some ''{'') None))
   \<and> Patch (processAdmissionRequest_001 (stubUnmarshal []) stubMarshal exampleServer
      (exampleRequest Create (Some ''{'') None)) = None
   \<and> PatchType (processAdmissionRequest_001 (stubUnmarshal []) stubMarshal exampleServer
      (exampleRequest Create (Some ''{'') None)) = None"
proof -
  have denied: "\<not> Allowed (processAdmissionRequest_001 (stubUnmarshal []) stubMarshal
      exampleServer (exampleRequest Create (Some ''{'') None))"
    by (simp add: example_denied_001 createErrorResponse_def)
  have uid: "AdmissionRequest.UID (exampleRequest Create (Some ''{'') None) = ''uid-1''"
    by (simp add: exampleRequest_def)
  show ?thesis
    using response_invariant[of "stubUnmarshal []" stubMarshal exampleServer
            "exampleRequest Create (Some ''{'') None"] denied uid
    by simp
qed

text \<open>
  Claim C5. A Pod request with operation Create or Update whose object does not decode is
  denied: \<^verbatim>\<open>allowed\<close> is false, the result code is 400 and the message is
  \<^verbatim>\<open>"Failed to parse pod: "\<close> followed by the decoding error (in revision part_001
  the error of \<^verbatim>\<open>parsePodFromRequest\<close>). The same holds when the prior object of
  an Update does not decode (part_000) and when \<^verbatim>\<open>json.Marshal\<close> fails on the
  patch. These are the only denials: a denied response implies that the request is a Pod
  request (in part_001 with operation Create or Update) and that the object or the prior
  object really failed to decode, or that \<^verbatim>\<open>json.Marshal\<close> really failed on the
  patch of this request, and the response is the denial for that failure. Every response
  is either allowed with no result, or built by \<^verbatim>\<open>createErrorResponse\<close> (not
  allowed, code 400, no patch); and the pointer read after \<^verbatim>\<open>injectDNSConfig\<close> is
  never nil, so no path leaves the function other than by returning a response.
\<close>

theorem parse_failure_is_denied:
  "(isPodRequest req \<and> (Operation req = Create \<or> Operation req = Update)
      \<and> um (rawBytes (Object req)) = Inl e \<longrightarrow>
        processAdmissionRequest_000 um m s req =
          createErrorResponse (AdmissionRequest.UID req) (''Failed to parse pod: '' @ e)
        \<and> processAdmissionRequest_001 um m s req =
          createErrorResponse (AdmissionRequest.UID req)
            (''Failed to parse pod: '' @
               (case Raw (Object req) of
                  None \<Rightarrow> ''admission request object is nil''
                | Some raw \<Rightarrow> ''failed to unmarshal pod object: '' @ e)))
   \<and> (isPodRequest req \<and> Operation req = Update
      \<and> um (rawBytes (Object req)) = Inr pod \<and> um (rawBytes (OldObject req)) = Inl e \<longrightarrow>
        processAdmissionRequest_000 um m s req =
          createErrorResponse (AdmissionRequest.UID req) (''Failed to parse pod: '' @ e))
   \<and> (isPodRequest req \<and> Operation req = Create \<and> um (rawBytes (Object req)) = Inr pod
      \<and> m (patches pod (the (fst (injectDNSConfig (Some pod) (createDNSConfig_000 s pod)))))
          = Inl e \<longrightarrow>
        processAdmissionRequest_000 um m s req =
          createErrorResponse (AdmissionRequest.UID req)
            (''Failed to generate patch: failed to marshal JSON patch: '' @ e))
   \<and> (isPodRequest req \<and> Operation req = Update \<and> um (rawBytes (Object req)) = Inr pod
      \<and> um (rawBytes (OldObject req)) = Inr oldPod
      \<and> m (patches pod (resetDNS pod oldPod)) = Inl e \<longrightarrow>
        processAdmissionRequest_000 um m s req =
          createErrorResponse (AdmissionRequest.UID req)
            (''Failed to generate patch: failed to marshal JSON patch: '' @ e))
   \<and> (isPodRequest req \<and> (Operation req = Create \<or> Operation req = Update)
      \<and> parsePodFromRequest um req = Inr pod
      \<and> m (patches pod (the (fst (injectDNSConfig (Some pod) (createDNSConfig (config s))))))
          = Inl e \<longrightarrow>
        processAdmissionRequest_001 um m s req =
          createErrorResponse (AdmissionRequest.UID req)
            (''Failed to generate patch: failed to marshal JSON patch: '' @ e))
   \<and> (\<not> Allowed (processAdmissionRequest_000 um m s req) \<longrightarrow>
        isPodRequest req \<and>
        ((\<exists>e. um (rawBytes (Object req)) = Inl e \<and>
           processAdmissionRequest_000 um m s req =
             createErrorResponse (AdmissionRequest.UID req) (''Failed to parse pod: '' @ e))
         \<or> (\<exists>pod e. um (rawBytes (Object req)) = Inr pod \<and> Operation req = Update \<and>
           um (rawBytes (OldObject req)) = Inl e \<and>
           processAdmissionRequest_000 um m s req =
             createErrorResponse (AdmissionRequest.UID req) (''Failed to parse pod: '' @ e))
         \<or> (\<exists>pod e. um (rawBytes (Object req)) = Inr pod \<and> Operation req = Create \<and>
           m (patches pod (the (fst (injectDNSConfig (Some pod) (createDNSConfig_000 s pod)))))
             = Inl e \<and>
           processAdmissionRequest_000 um m s req =
             createErrorResponse (AdmissionRequest.UID req)
               (''Failed to generate patch: failed to marshal JSON patch: '' @ e))
         \<or> (\<exists>pod oldPod e. um (rawBytes (Object req)) = Inr pod \<and> Operation req = Update \<and>
           um (rawBytes (OldObject req)) = Inr oldPod \<and>
           m (patches pod (resetDNS pod oldPod)) = Inl e \<and>
           processAdmissionRequest_000 um m s req =
             createErrorResponse (AdmissionRequest.UID req)
               (''Failed to generate patch: failed to marshal JSON patch: '' @ e))))
   \<and> (\<not> Allowed (processAdmissionRequest_001 um m s req) \<longrightarrow>
        isPodRequest req \<and> (Operation req = Create \<or> Operation req = Update) \<and>
        ((Raw (Object req) = None \<and>
           processAdmissionRequest_001 um m s req =
             createErrorResponse (AdmissionRequest.UID req)
               (''Failed to parse pod: '' @ ''admission request object is nil''))
         \<or> (\<exists>raw e. Raw (Object req) = Some raw \<and> um raw = Inl e \<and>
           processAdmissionRequest_001 um m s req =
             createErrorResponse (AdmissionRequest.UID req)
               (''Failed to parse pod: '' @ ''failed to unmarshal pod object: '' @ e))
         \<or> (\<exists>pod e. parsePodFromRequest um req = Inr pod \<and>
           m (patches pod (the (fst (injectDNSConfig (Some pod) (createDNSConfig (config s))))))
             = Inl e \<and>
           processAdmissionRequest_001 um m s req =
             createErrorResponse (AdmissionRequest.UID req)
               (''Failed to generate patch: failed to marshal JSON patch: '' @ e))))
   \<and> ((Allowed (processAdmissionRequest_000 um m s req)
          \<and> Result (processAdmissionRequest_000 um m s req) = None)
        \<or> (\<exists>message. processAdmissionRequest_000 um m s req =
              createErrorResponse (AdmissionRequest.UID req) message))
   \<and> ((Allowed (processAdmissionRequest_001 um m s req)
          \<and> Result (processAdmissionRequest_001 um m s req) = None)
        \<or> (\<exists>message. processAdmissionRequest_001 um m s req =
              createErrorResponse (AdmissionRequest.UID req) message))
   \<and> fst (injectDNSConfig (Some pod) dnsConfig) \<noteq> None
   \<and> \<not> Allowed (createErrorResponse uid message)
   \<and> Result (createErrorResponse uid message) = Some \<lparr>Code = 400, Message = message\<rparr>
   \<and> Patch (createErrorResponse uid message) = None"
proof -
  have c1: "isPodRequest req \<and> (Operation req = Create \<or> Operation req = Update)
      \<and> um (rawBytes (Object req)) = Inl e \<longrightarrow>
        processAdmissionRequest_000 um m s req =
          createErrorResponse (AdmissionRequest.UID req) (''Failed to parse pod: '' @ e)
        \<and> processAdmissionRequest_001 um m s req =
          createErrorResponse (AdmissionRequest.UID req)
            (''Failed to parse pod: '' @
               (case Raw (Object req) of
                  None \<Rightarrow> ''admission request object is nil''
                | Some raw \<Rightarrow> ''failed to unmarshal pod object: '' @ e))"
  proof (intro impI, elim conjE)
    assume pr: "GroupVersionKind.Kind (AdmissionRequest.Kind req) = ''Pod''"
         "GroupVersionResource.Resource (AdmissionRequest.Resource req) = ''pods''"
      and opn: "Operation req = Create \<or> Operation req = Update"
      and err: "um (rawBytes (Object req)) = Inl e"
    from pr have pod_req: "isPodRequest req" by simp
    have a: "processAdmissionRequest_000 um m s req =
             createErrorResponse (AdmissionRequest.UID req) (''Failed to parse pod: '' @ e)"
      using process_000_parse_error[where um=um, OF pod_req err] .
    have "parsePodFromRequest um req =
            Inl (case Raw (Object req) of
                  None \<Rightarrow> ''admission request object is nil''
                | Some raw \<Rightarrow> ''failed to unmarshal pod object: '' @ e)"
      using err by (simp add: parsePodFromRequest_def rawBytes_def split: option.splits)
    from process_001_parse_error[where um=um, OF pod_req opn this] a
    show "processAdmissionRequest_000 um m s req =
          createErrorResponse (AdmissionRequest.UID req) (''Failed to parse pod: '' @ e)
        \<and> processAdmissionRequest_001 um m s req =
          createErrorResponse (AdmissionRequest.UID req)
            (''Failed to parse pod: '' @
               (case Raw (Object req) of
                  None \<Rightarrow> ''admission request object is nil''
                | Some raw \<Rightarrow> ''failed to unmarshal pod object: '' @ e))"
      by blast
  qed
  have c2: "isPodRequest req \<and> Operation req = Update
      \<and> um (rawBytes (Object req)) = Inr pod \<and> um (rawBytes (OldObject req)) = Inl e \<longrightarrow>
        processAdmissionRequest_000 um m s req =
          createErrorResponse (AdmissionRequest.UID req) (''Failed to parse pod: '' @ e)"
    using process_000_update_old_error[where um=um and req=req and pod=pod and e=e and m=m
            and s=s]
    by blast
  have c3: "isPodRequest req \<and> Operation req = Create \<and> um (rawBytes (Object req)) = Inr pod
      \<and> m (patches pod (the (fst (injectDNSConfig (Some pod) (createDNSConfig_000 s pod)))))
          = Inl e \<longrightarrow>
        processAdmissionRequest_000 um m s req =
          createErrorResponse (AdmissionRequest.UID req)
            (''Failed to generate patch: failed to marshal JSON patch: '' @ e)"
  proof (intro impI, elim conjE)
    assume pr: "GroupVersionKind.Kind (AdmissionRequest.Kind req) = ''Pod''"
         "GroupVersionResource.Resource (AdmissionRequest.Resource req) = ''pods''"
      and opn: "Operation req = Create" and ok: "um (rawBytes (Object req)) = Inr pod"
      and bad: "m (patches pod (the (fst (injectDNSConfig (Some pod)
                  (createDNSConfig_000 s pod))))) = Inl e"
    from pr have pod_req: "isPodRequest req" by simp
    show "processAdmissionRequest_000 um m s req =
          createErrorResponse (AdmissionRequest.UID req)
            (''Failed to generate patch: failed to marshal JSON patch: '' @ e)"
      unfolding process_000_create[where um=um, OF pod_req ok opn] respondWithPatch_cases bad
      by simp
  qed
  have c4: "isPodRequest req \<and> Operation req = Update \<and> um (rawBytes (Object req)) = Inr pod
      \<and> um (rawBytes (OldObject req)) = Inr oldPod
      \<and> m (patches pod (resetDNS pod oldPod)) = Inl e \<longrightarrow>
        processAdmissionRequest_000 um m s req =
          createErrorResponse (AdmissionRequest.UID req)
            (''Failed to generate patch: failed to marshal JSON patch: '' @ e)"
  proof (intro impI, elim conjE)
    assume pr: "GroupVersionKind.Kind (AdmissionRequest.Kind req) = ''Pod''"
         "GroupVersionResource.Resource (AdmissionRequest.Resource req) = ''pods''"
      and opn: "Operation req = Update" and ok: "um (rawBytes (Object req)) = Inr pod"
      and old: "um (rawBytes (OldObject req)) = Inr oldPod"
      and bad: "m (patches pod (resetDNS pod oldPod)) = Inl e"
    from pr have pod_req: "isPodRequest req" by simp
    show "processAdmissionRequest_000 um m s req =
          createErrorResponse (AdmissionRequest.UID req)
            (''Failed to generate patch: failed to marshal JSON patch: '' @ e)"
      unfolding process_000_update[where um=um, OF pod_req ok opn old] respondWithPatch_cases bad
      by simp
  qed
  have c5: "isPodRequest req \<and> (Operation req = Create \<or> Operation req = Update)
      \<and> parsePodFromRequest um req = Inr pod
      \<and> m (patches pod (the (fst (injectDNSConfig (Some pod) (createDNSConfig (config s))))))
          = Inl e \<longrightarrow>
        processAdmissionRequest_001 um m s req =
          createErrorResponse (AdmissionRequest.UID req)
            (''Failed to generate patch: failed to marshal JSON patch: '' @ e)"
  proof (intro impI, elim conjE)
    assume pr: "GroupVersionKind.Kind (AdmissionRequest.Kind req) = ''Pod''"
         "GroupVersionResource.Resource (AdmissionRequest.Resource req) = ''pods''"
      and opn: "Operation req = Create \<or> Operation req = Update"
      and ok: "parsePodFromRequest um req = Inr pod"
      and bad: "m (patches pod (the (fst (injectDNSConfig (Some pod)
                  (createDNSConfig (config s)))))) = Inl e"
    from pr have pod_req: "isPodRequest req" by simp
    show "processAdmissionRequest_001 um m s req =
          createErrorResponse (AdmissionRequest.UID req)
            (''Failed to generate patch: failed to marshal JSON patch: '' @ e)"
      unfolding process_001_inject[where um=um, OF pod_req opn ok] respondWithPatch_cases bad
      by simp
  qed
  show ?thesis
    apply (intro conjI)
    subgoal by (rule c1)
    subgoal by (rule c2)
    subgoal by (rule c3)
    subgoal by (rule c4)
    subgoal by (rule c5)
    subgoal by (rule impI) (rule process_000_denial_cause)
    subgoal by (rule impI) (rule process_001_denial_cause)
    subgoal by (rule outcome_total[OF process_000_outcome[where req=req and um=um and m=m and s=s]])
    subgoal by (rule outcome_total[OF process_001_outcome[where req=req and um=um and m=m and s=s]])
    subgoal by (simp add: injectDNSConfig_def Let_def)
    subgoal by (simp add: createErrorResponse_def)
    subgoal by (simp add: createErrorResponse_def)
    subgoal by (simp add: createErrorResponse_def)
    done
qed

theorem parse_failure_is_denied_witness:
  "processAdmissionRequest_000 (stubUnmarshal []) stubMarshal exampleServer
      (exampleRequest ''CREATE'' (Some ''{'') None)
     = createErrorResponse ''uid-1'' ''Failed to parse pod: unexpected end of JSON input''
   \<and> processAdmissionRequest_001 (stubUnmarshal []) stubMarshal exampleServer
      (exampleRequest ''CREATE'' (Some ''{'') None)
     = createErrorResponse ''uid-1''
         ''Failed to parse pod: failed to unmarshal pod object: unexpected end of JSON input''
   \<and> Allowed (processAdmissionRequest_000 (stubUnmarshal [(exampleRaw, examplePod [] False)])
        stubMarshal exampleServer (exampleRequest ''CREATE'' (Some exampleRaw) None))
   \<and> Allowed (processAdmissionRequest_001 (stubUnmarshal [(exampleRaw, examplePod [] False)])
        stubMarshal exampleServer (exampleRequest ''CREATE'' (Some exampleRaw) None))
   \<and> Allowed (processAdmissionRequest_000 (stubUnmarshal []) stubMarshal exampleServer
        ((exampleRequest ''CREATE'' (Some ''{'') None)
           \<lparr>AdmissionRequest.Kind := \<lparr>GroupVersionKind.Group = ''apps'',
              GroupVersionKind.Version = ''v1'', GroupVersionKind.Kind = ''Deployment''\<rparr>\<rparr>))
   \<and> Allowed (processAdmissionRequest_001 (stubUnmarshal []) stubMarshal exampleServer
        ((exampleRequest ''CREATE'' (Some ''{'') None)
           \<lparr>AdmissionRequest.Kind := \<lparr>GroupVersionKind.Group = ''apps'',
              GroupVersionKind.Version = ''v1'', GroupVersionKind.Kind = ''Deployment''\<rparr>\<rparr>))"
proof -
  note bad = parse_failure_is_denied[where req="exampleRequest ''CREATE'' (Some ''{'') None"
          and um="stubUnmarshal []" and e="''unexpected end of JSON input''"
          and m=stubMarshal and s=exampleServer]
  note good = parse_failure_is_denied[where req="exampleRequest ''CREATE'' (Some exampleRaw) None"
          and um="stubUnmarshal [(exampleRaw, examplePod [] False)]"
          and m=stubMarshal and s=exampleServer]
  note other = parse_failure_is_denied[where req="(exampleRequest ''CREATE'' (Some ''{'') None)
           \<lparr>AdmissionRequest.Kind := \<lparr>GroupVersionKind.Group = ''apps'',
              GroupVersionKind.Version = ''v1'', GroupVersionKind.Kind = ''Deployment''\<rparr>\<rparr>"
          and um="stubUnmarshal []" and m=stubMarshal and s=exampleServer]
  have d: "processAdmissionRequest_000 (stubUnmarshal []) stubMarshal exampleServer
      (exampleRequest ''CREATE'' (Some ''{'') None)
     = createErrorResponse ''uid-1'' ''Failed to parse pod: unexpected end of JSON input''
   \<and> processAdmissionRequest_001 (stubUnmarshal []) stubMarshal exampleServer
      (exampleRequest ''CREATE'' (Some ''{'') None)
     = createErrorResponse ''uid-1''
         ''Failed to parse pod: failed to unmarshal pod object: unexpected end of JSON input''"
    using bad[THEN conjunct1]
    by (simp add: stubUnmarshal_def exampleRequest_def rawBytes_def Create_def)
  have g0: "Allowed (processAdmissionRequest_000 (stubUnmarshal [(exampleRaw, examplePod [] False)])
        stubMarshal exampleServer (exampleRequest ''CREATE'' (Some exampleRaw) None))"
    using good[THEN conj6]
    by (simp add: stubUnmarshal_def stubMarshal_def exampleRequest_def rawBytes_def Update_def)
  have g1: "Allowed (processAdmissionRequest_001 (stubUnmarshal [(exampleRaw, examplePod [] False)])
        stubMarshal exampleServer (exampleRequest ''CREATE'' (Some exampleRaw) None))"
    using good[THEN conj7]
    by (simp add: stubUnmarshal_def stubMarshal_def exampleRequest_def)
  have o0: "Allowed (processAdmissionRequest_000 (stubUnmarshal []) stubMarshal exampleServer
        ((exampleRequest ''CREATE'' (Some ''{'') None)
           \<lparr>AdmissionRequest.Kind := \<lparr>GroupVersionKind.Group = ''apps'',
              GroupVersionKind.Version = ''v1'', GroupVersionKind.Kind = ''Deployment''\<rparr>\<rparr>))"
    using other[THEN conj6] by (simp add: exampleRequest_def)
  have o1: "Allowed (processAdmissionRequest_001 (stubUnmarshal []) stubMarshal exampleServer
        ((exampleRequest ''CREATE'' (Some ''{'') None)
           \<lparr>AdmissionRequest.Kind := \<lparr>GroupVersionKind.Group = ''apps'',
              GroupVersionKind.Version = ''v1'', GroupVersionKind.Kind = ''Deployment''\<rparr>\<rparr>))"
    using other[THEN conj7] by (simp add: exampleRequest_def)
  from d g0 g1 o0 o1 show ?thesis by (intro conjI) (simp_all only:)
qed

text \<open>
  Claim C4 says that a Pod request whose operation is neither Create nor Update is allowed
  without a patch, whatever its raw object, and that the object is not parsed. Revision
  part_001 does this, and both revisions do it for requests that are not about Pods (lemmas
  \<open>process_001_skip\<close> and \<open>process_000_not_pod\<close>). Revision part_000 decodes the
  object before its \<^verbatim>\<open>switch\<close> on the operation: when the object does not decode,
  a request with any other operation is denied with code 400, although the
  \<^verbatim>\<open>default\<close> case of the switch would allow it.
\<close>

theorem other_operation_object_is_parsed:
  assumes "isPodRequest req"
    and "Operation req \<noteq> Create" and "Operation req \<noteq> Update"
    and "um (rawBytes (Object req)) = Inl e"
  shows "processAdmissionRequest_000 um m s req =
           createErrorResponse (AdmissionRequest.UID req) (''Failed to parse pod: '' @ e)
         \<and> \<not> Allowed (processAdmissionRequest_000 um m s req)"
  using process_000_parse_error[where um=um, OF assms(1) assms(4), of m s]
  by (simp add: createErrorResponse_def)

text \<open>
  A DELETE request for a Pod carries no object (\<^verbatim>\<open>Raw\<close> is nil), which is the
  empty input for the decoder.
\<close>

theorem other_operation_object_is_parsed_witness:
  "processAdmissionRequest_000 (stubUnmarshal []) stubMarshal exampleServer
      (exampleRequest ''DELETE'' None (Some ''{}''))
     = \<lparr>AdmissionResponse.UID = ''uid-1'', Allowed = False,
        Result = Some \<lparr>Code = 400,
                       Message = ''Failed to parse pod: unexpected end of JSON input''\<rparr>,
        Patch = None, PatchType = None\<rparr>"
  using other_operation_object_is_parsed[of "exampleRequest ''DELETE'' None (Some ''{}'')"
          "stubUnmarshal []" "''unexpected end of JSON input''" stubMarshal exampleServer]
  by (simp add: example_defs go_consts createErrorResponse_def)

text \<open>
  Claim C1 says that on Update the patch carries the prior object's DNS policy and DNS
  config. In revision part_000 the working copy does get both values of the prior object
  (lemma \<open>process_000_update\<close>), and the \<^verbatim>\<open>add\<close> operation carries the prior
  DNS config when there is one; but the \<^verbatim>\<open>replace\<close> operation carries the constant
  \<^verbatim>\<open>"None"\<close>, whatever the prior policy.
\<close>

theorem update_patch_policy_fixed:
  assumes "isPodRequest req" and "Operation req = Update"
    and "um (rawBytes (Object req)) = Inr pod"
    and "um (rawBytes (OldObject req)) = Inr oldPod"
  shows "processAdmissionRequest_000 um m s req =
     (case m
        (\<lparr>op = ''replace'', path = ''/spec/dnsPolicy'', val = StringValue ''None''\<rparr> #
         (case DNSConfig (Spec oldPod) of
            None \<Rightarrow> []
          | Some c \<Rightarrow> [\<lparr>op = ''add'', path = ''/spec/dnsConfig'', val = DNSConfigValue c\<rparr>]))
      of Inl err \<Rightarrow>
           createErrorResponse (AdmissionRequest.UID req)
             (''Failed to generate patch: failed to marshal JSON patch: '' @ err)
       | Inr patchBytes \<Rightarrow>
           \<lparr>AdmissionResponse.UID = AdmissionRequest.UID req, Allowed = True, Result = None,
            Patch = Some patchBytes, PatchType = Some ''JSONPatch''\<rparr>)"
  using process_000_update[where um=um, OF assms(1) assms(3) assms(2) assms(4), of m s]
  by (simp add: respondWithPatch_cases patches_eq PatchTypeJSONPatch_def split: sum.splits)

text \<open>
  The prior pod has policy \<^verbatim>\<open>ClusterFirst\<close>, the new one \<^verbatim>\<open>Default\<close>; the
  patch sets \<^verbatim>\<open>None\<close>.
\<close>

theorem update_patch_policy_fixed_witness:
  "DNSPolicy (Spec (examplePod ''ClusterFirst'' False)) = ''ClusterFirst''
   \<and> DNSPolicy (Spec (examplePod ''Default'' False)) = ''Default''
   \<and> processAdmissionRequest_000
        (stubUnmarshal [(''new'', examplePod ''Default'' False),
                        (''old'', examplePod ''ClusterFirst'' False)])
        stubMarshal exampleServer (exampleRequest ''UPDATE'' (Some ''new'') (Some ''old''))
     = \<lparr>AdmissionResponse.UID = ''uid-1'', Allowed = True, Result = None,
        Patch = Some ''replace /spec/dnsPolicy None;'', PatchType = Some ''JSONPatch''\<rparr>"
  using update_patch_policy_fixed[of "exampleRequest ''UPDATE'' (Some ''new'') (Some ''old'')"
          "stubUnmarshal [(''new'', examplePod ''Default'' False),
                          (''old'', examplePod ''ClusterFirst'' False)]"
          "examplePod ''Default'' False" "examplePod ''ClusterFirst'' False"
          stubMarshal exampleServer]
  by (simp add: example_defs go_consts)




text \<open>
  Where the revisions differ from each other. For the same request in namespace
  \<^verbatim>\<open>ns\<close>, revision part_001 takes the searches from the configured
  \<^verbatim>\<open>SearchDomains\<close>, which start with \<^verbatim>\<open>default.svc.cluster.local\<close>, where
  part_000 derives \<^verbatim>\<open>ns.svc.cluster.local\<close>.
\<close>

lemma search_list_of_part_001_is_static:
  "processAdmissionRequest_001 (stubUnmarshal [(exampleRaw, examplePod [] False)]) stubMarshal
        exampleServer (exampleRequest ''CREATE'' (Some exampleRaw) None)
     = \<lparr>AdmissionResponse.UID = ''uid-1'', Allowed = True, Result = None,
        Patch = Some (''replace /spec/dnsPolicy None;'' @
          ''add /spec/dnsConfig 169.254.20.10,10.96.0.10,default.svc.cluster.local,svc.cluster.local,cluster.local,;''),
        PatchType = Some ''JSONPatch''\<rparr>"
  by (simp add: processAdmissionRequest_001_def
        parsePodFromRequest_def createDNSConfig_def injectDNSConfig_def respondWithPatch_cases
        patches_eq createErrorResponse_def example_defs go_consts Let_def)

text \<open>
  For an object that carries no namespace, \<^verbatim>\<open>parsePodFromRequest\<close> of part_001 falls
  back to the namespace of the request; part_000 has no such step and derives
  \<^verbatim>\<open>.svc.cluster.local\<close>.
\<close>

lemma part_000_has_no_namespace_fallback:
  "processAdmissionRequest_000
        (stubUnmarshal [(''{}'', (examplePod [] False)\<lparr>Pod.Namespace := []\<rparr>)]) stubMarshal
        exampleServer (exampleRequest ''CREATE'' (Some ''{}'') None)
     = \<lparr>AdmissionResponse.UID = ''uid-1'', Allowed = True, Result = None,
        Patch = Some (''replace /spec/dnsPolicy None;'' @
          ''add /spec/dnsConfig 169.254.20.10,10.96.0.10,.svc.cluster.local,svc.cluster.local,cluster.local,;''),
        PatchType = Some ''JSONPatch''\<rparr>
   \<and> parsePodFromRequest
        (stubUnmarshal [(''{}'', (examplePod [] False)\<lparr>Pod.Namespace := []\<rparr>)])
        (exampleRequest ''CREATE'' (Some ''{}'') None)
     = Inr (examplePod [] False)"
  by (simp add: processAdmissionRequest_000_def
        parsePodFromRequest_def injectDNSConfig_def respondWithPatch_cases
        patches_eq createErrorResponse_def example_defs go_consts Let_def)

section \<open>The transport\<close>

text \<open>
  Claim C9. When a request to \<^verbatim>\<open>/inject\<close> fails transport validation (its method
  is not POST, its content type is not \<^verbatim>\<open>application/json\<close>, its body cannot be
  read or does not decode as a review, the review has no request, or the request's UID is
  empty), the handler answers with status 400 or 405 and the body
  \<^verbatim>\<open>{"error":{"code":..,"message":..}}\<close>, and the answer does not depend on the
  decision engine: \<^verbatim>\<open>processAdmissionRequest\<close> is not called.
\<close>

theorem HandleInject_transport_errors:
  assumes "Method r \<noteq> MethodPost
           \<or> ContentType r \<noteq> ContentTypeJSON
           \<or> (\<exists>e. HTTPRequest.Body r = Inl e)
           \<or> (\<exists>body. HTTPRequest.Body r = Inr body \<and>
                ((\<exists>e. unmarshal body = Inl e)
                 \<or> (\<exists>review. unmarshal body = Inr review \<and>
                      (Request review = None
                       \<or> (\<exists>request. Request review = Some request
                             \<and> AdmissionRequest.UID request = [])))))"
  shows "\<exists>code message.
           HandleInject unmarshal marshal process r =
             \<lparr>StatusCode = code, HeaderContentType = ''application/json'',
              HTTPResponse.Body =
                JSONBody (JObject [(''error'',
                  JObject [(''code'', JNumber code), (''message'', JString message)])])\<rparr>
           \<and> (code = 400 \<or> code = 405) \<and> code \<noteq> 200
           \<and> (\<forall>process'. HandleInject unmarshal marshal process' r =
                            HandleInject unmarshal marshal process r)"
proof -
  have shape: "\<And>code message. writeErrorResponse code message =
             \<lparr>StatusCode = code, HeaderContentType = ''application/json'',
              HTTPResponse.Body =
                JSONBody (JObject [(''error'',
                  JObject [(''code'', JNumber code), (''message'', JString message)])])\<rparr>"
    by (simp add: writeErrorResponse_def ContentTypeJSON_def)
  have "\<exists>code message. (code = 400 \<or> code = 405) \<and>
          (\<forall>p. HandleInject unmarshal marshal p r = writeErrorResponse code message)"
  proof (cases "Method r \<noteq> MethodPost")
    case True
    then have "\<forall>p. HandleInject unmarshal marshal p r =
                 writeErrorResponse 405 ''Only POST method is allowed''"
      by (simp add: HandleInject_def StatusMethodNotAllowed_def)
    then show ?thesis by blast
  next
    case post: False
    show ?thesis
    proof (cases "ContentType r \<noteq> ContentTypeJSON")
      case True
      then have "\<forall>p. HandleInject unmarshal marshal p r =
                   writeErrorResponse 400 ''Content-Type must be application/json''"
        using post by (simp add: HandleInject_def StatusBadRequest_def Let_def)
      then show ?thesis by blast
    next
      case json: False
      show ?thesis
      proof (cases "HTTPRequest.Body r")
        case (Inl e)
        then have "\<forall>p. HandleInject unmarshal marshal p r =
                     writeErrorResponse 400 ''Failed to read request body''"
          using post json by (simp add: HandleInject_def StatusBadRequest_def Let_def)
        then show ?thesis by blast
      next
        case (Inr body)
        with assms post json
        have bad: "(\<exists>e. unmarshal body = Inl e)
                 \<or> (\<exists>review. unmarshal body = Inr review \<and>
                      (Request review = None
                       \<or> (\<exists>request. Request review = Some request
                             \<and> AdmissionRequest.UID request = [])))"
          by auto
        then obtain e where "parseAdmissionReview unmarshal body = Inl e"
          by (auto simp: parseAdmissionReview_def)
        then have "\<forall>p. HandleInject unmarshal marshal p r =
                     writeErrorResponse 400 (''Failed to parse admission review: '' @ e)"
          using post json Inr by (simp add: HandleInject_def StatusBadRequest_def Let_def)
        then show ?thesis by blast
      qed
    qed
  qed
  then obtain code message where c: "code = 400 \<or> code = 405"
    and h: "\<forall>p. HandleInject unmarshal marshal p r = writeErrorResponse code message"
    by blast
  have "HandleInject unmarshal marshal process r =
             \<lparr>StatusCode = code, HeaderContentType = ''application/json'',
              HTTPResponse.Body =
                JSONBody (JObject [(''error'',
                  JObject [(''code'', JNumber code), (''message'', JString message)])])\<rparr>"
    using h shape by simp
  moreover have "code \<noteq> 200" using c by auto
  moreover have "\<forall>process'. HandleInject unmarshal marshal process' r =
                            HandleInject unmarshal marshal process r"
    using h by simp
  ultimately show ?thesis using c by blast
qed

theorem HandleInject_transport_errors_witness:
  "HandleInject (\<lambda>body. Inl ''unexpected end of JSON input'') (\<lambda>review. Inr ''{}'')
      (processAdmissionRequest_001 (stubUnmarshal []) stubMarshal exampleServer)
      \<lparr>Method = ''POST'', URLPath = ''/inject'', ContentType = ''text/plain'',
       HTTPRequest.Body = Inr ''hello''\<rparr>
   = \<lparr>StatusCode = 400, HeaderContentType = ''application/json'',
      HTTPResponse.Body =
        JSONBody (JObject [(''error'',
          JObject [(''code'', JNumber 400),
                   (''message'', JString ''Content-Type must be application/json'')])])\<rparr>"
proof -
  let ?r = "\<lparr>Method = ''POST'', URLPath = ''/inject'', ContentType = ''text/plain'',
       HTTPRequest.Body = Inr ''hello''\<rparr>"
  have "ContentType ?r \<noteq> ContentTypeJSON" by (simp add: ContentTypeJSON_def)
  then obtain code message where
    "HandleInject (\<lambda>body. Inl ''unexpected end of JSON input'') (\<lambda>review. Inr ''{}'')
      (processAdmissionRequest_001 (stubUnmarshal []) stubMarshal exampleServer) ?r =
             \<lparr>StatusCode = code, HeaderContentType = ''application/json'',
              HTTPResponse.Body =
                JSONBody (JObject [(''error'',
                  JObject [(''code'', JNumber code), (''message'', JString message)])])\<rparr>"
    using HandleInject_transport_errors[of ?r "\<lambda>body. Inl ''unexpected end of JSON input''"
            "\<lambda>review. Inr ''{}''"
            "processAdmissionRequest_001 (stubUnmarshal []) stubMarshal exampleServer"]
    by blast
  then show ?thesis
    by (simp add: HandleInject_def writeErrorResponse_def ContentTypeJSON_def MethodPost_def
          StatusBadRequest_def Let_def)
qed

end
